theory Spec2Isabelle
  imports Complex_Main "HOL-Library.AList"
begin

section \<open>Data model\<close>

text \<open>
  A JavaScript Number is modelled as an exact rational: the arithmetic of the trading
  core (\<open>+\<close>, \<open>-\<close>, \<open>*\<close>, \<open>/\<close>, comparisons, \<open>Math.max\<close>, \<open>Math.round\<close>) is
  written on \<open>rat\<close>. NaN, the infinities and the rounding of IEEE doubles are outside
  the model; wherever the source could divide by zero the theorems below carry the
  hypothesis that excludes it.
\<close>

type_synonym number = rat

text \<open>\<open>utils/constants.js\<close>: \<open>ORDER_TYPES\<close>, \<open>ORDER_STYLES\<close>, \<open>ORDER_STATUSES\<close>.\<close>

datatype order_type = BUY | SELL

datatype order_style = MARKET | LIMIT

datatype order_status = NEW | PLACED | EXECUTED | CANCELLED

text \<open>The objects kept by \<open>database/memoryStore.js\<close>. Dates are clock readings.\<close>

record instrument =
  inst_id :: string
  inst_symbol :: string
  exchange :: string
  instrumentType :: string
  lastTradedPrice :: number
  companyName :: string

record order =
  order_id :: string
  order_userId :: string
  order_symbol :: string
  orderType :: order_type
  orderStyle :: order_style
  order_quantity :: number
  order_price :: "number option"
  status :: order_status
  executedPrice :: "number option"
  executedQuantity :: "number option"
  order_createdAt :: nat
  order_updatedAt :: nat

record trade =
  trade_id :: string
  trade_userId :: string
  trade_orderId :: string
  trade_symbol :: string
  trade_orderType :: order_type
  trade_quantity :: number
  trade_price :: number
  totalAmount :: number
  tradeReference :: string
  executedAt :: nat
  trade_createdAt :: nat

record holding =
  holding_userId :: string
  holding_symbol :: string
  quantity :: number
  totalInvestment :: number
  averagePrice :: number
  holding_updatedAt :: nat

text \<open>
  A JavaScript \<open>Map\<close> keeps its keys in insertion order: it is an association list,
  \<open>Map.get\<close> is \<open>map_of\<close> and \<open>Map.set\<close> is \<open>AList.update\<close> (an existing key keeps
  its place, a new key goes to the end).
\<close>

record store =
  instruments :: "(string \<times> instrument) list"
  orders :: "(string \<times> order) list"
  trades :: "(string \<times> trade) list"
  portfolio :: "(string \<times> holding) list"

section \<open>\<open>utils/helpers.js\<close>\<close>

text \<open>\<open>Math.round\<close>: the nearest integer, a tie going towards plus infinity.\<close>

definition Math_round :: "number \<Rightarrow> number" where
  "Math_round x = of_int \<lfloor>x + 1 / 2\<rfloor>"

text \<open>
  \<open>calculateExecutionPrice(order, currentMarketPrice)\<close>. The value drawn by
  \<open>Math.random()\<close> is the argument \<open>rnd\<close>. For an order that is not a MARKET order
  the result is \<open>order.price\<close>, which may be undefined (\<open>None\<close>).
\<close>

definition calculateExecutionPrice :: "number \<Rightarrow> order \<Rightarrow> number \<Rightarrow> number option" where
  "calculateExecutionPrice rnd ord currentMarketPrice =
     (if orderStyle ord = MARKET then
        (let slippage = (rnd - 1 / 2) * (2 / 1000)
         in Some (Math_round (currentMarketPrice * (1 + slippage) * 100) / 100))
      else order_price ord)"

text \<open>A comparison with \<open>undefined\<close> is false in JavaScript, whichever way it points.\<close>

definition js_le :: "number \<Rightarrow> number option \<Rightarrow> bool" where
  "js_le x y = (case y of None \<Rightarrow> False | Some v \<Rightarrow> x \<le> v)"

definition js_ge :: "number \<Rightarrow> number option \<Rightarrow> bool" where
  "js_ge x y = (case y of None \<Rightarrow> False | Some v \<Rightarrow> x \<ge> v)"

definition canExecuteLimitOrder :: "order \<Rightarrow> number \<Rightarrow> bool" where
  "canExecuteLimitOrder ord currentMarketPrice =
     (if orderStyle ord \<noteq> LIMIT then True
      else if orderType ord = BUY then js_le currentMarketPrice (order_price ord)
      else js_ge currentMarketPrice (order_price ord))"

section \<open>\<open>database/memoryStore.js\<close>\<close>

definition sampleInstruments :: "instrument list" where
  "sampleInstruments =
     [\<lparr>inst_id = ''RELIANCE'', inst_symbol = ''RELIANCE'', exchange = ''NSE'',
       instrumentType = ''EQUITY'', lastTradedPrice = 245075 / 100,
       companyName = ''Reliance Industries Ltd''\<rparr>,
      \<lparr>inst_id = ''TCS'', inst_symbol = ''TCS'', exchange = ''NSE'',
       instrumentType = ''EQUITY'', lastTradedPrice = 389020 / 100,
       companyName = ''Tata Consultancy Services Ltd''\<rparr>,
      \<lparr>inst_id = ''INFY'', inst_symbol = ''INFY'', exchange = ''NSE'',
       instrumentType = ''EQUITY'', lastTradedPrice = 175685 / 100,
       companyName = ''Infosys Ltd''\<rparr>,
      \<lparr>inst_id = ''HDFC'', inst_symbol = ''HDFC'', exchange = ''NSE'',
       instrumentType = ''EQUITY'', lastTradedPrice = 164230 / 100,
       companyName = ''HDFC Bank Ltd''\<rparr>,
      \<lparr>inst_id = ''ICICIBANK'', inst_symbol = ''ICICIBANK'', exchange = ''NSE'',
       instrumentType = ''EQUITY'', lastTradedPrice = 119845 / 100,
       companyName = ''ICICI Bank Ltd''\<rparr>]"

definition initializeSampleData :: "store \<Rightarrow> store" where
  "initializeSampleData st =
     st\<lparr>instruments :=
          foldl (\<lambda>m i. AList.update (inst_symbol i) i m) (instruments st) sampleInstruments\<rparr>"

text \<open>The constructor: four empty maps, then the sample instruments.\<close>

definition MemoryStore :: store where
  "MemoryStore =
     initializeSampleData \<lparr>instruments = [], orders = [], trades = [], portfolio = []\<rparr>"

definition store_getInstrumentBySymbol :: "store \<Rightarrow> string \<Rightarrow> instrument option" where
  "store_getInstrumentBySymbol st symbol = map_of (instruments st) symbol"

definition updateInstrumentPrice :: "store \<Rightarrow> string \<Rightarrow> number \<Rightarrow> bool \<times> store" where
  "updateInstrumentPrice st symbol price =
     (case map_of (instruments st) symbol of
        Some inst \<Rightarrow>
          (True, st\<lparr>instruments :=
                     AList.update symbol (inst\<lparr>lastTradedPrice := price\<rparr>) (instruments st)\<rparr>)
      | None \<Rightarrow> (False, st))"

text \<open>
  \<open>createOrder(orderData)\<close>: the order data with a fresh id (the value \<open>uuidv4()\<close>
  returns is the argument \<open>orderId\<close>) and the two dates.
\<close>

record orderData =
  od_userId :: string
  od_symbol :: string
  od_orderType :: order_type
  od_orderStyle :: order_style
  od_quantity :: number
  od_price :: "number option"

definition createOrder :: "nat \<Rightarrow> string \<Rightarrow> store \<Rightarrow> orderData \<Rightarrow> order_status \<Rightarrow> order \<times> store" where
  "createOrder now orderId st od st0 =
     (let ord = \<lparr>order_id = orderId, order_userId = od_userId od, order_symbol = od_symbol od,
                 orderType = od_orderType od, orderStyle = od_orderStyle od,
                 order_quantity = od_quantity od, order_price = od_price od, status = st0,
                 executedPrice = None, executedQuantity = None,
                 order_createdAt = now, order_updatedAt = now\<rparr>
      in (ord, st\<lparr>orders := AList.update orderId ord (orders st)\<rparr>))"

definition getOrderById :: "store \<Rightarrow> string \<Rightarrow> order option" where
  "getOrderById st orderId = map_of (orders st) orderId"

text \<open>
  \<open>if (executionData.executedPrice)\<close> tests truthiness: a number is truthy unless it is
  zero, \<open>undefined\<close> is falsy.
\<close>

definition truthy :: "number option \<Rightarrow> bool" where
  "truthy v = (case v of None \<Rightarrow> False | Some x \<Rightarrow> x \<noteq> 0)"

definition updateOrderStatus ::
  "nat \<Rightarrow> store \<Rightarrow> string \<Rightarrow> order_status \<Rightarrow> number option \<Rightarrow> number option \<Rightarrow> order option \<times> store" where
  "updateOrderStatus now st orderId newStatus exPrice exQuantity =
     (case map_of (orders st) orderId of
        Some ord \<Rightarrow>
          (let o1 = ord\<lparr>status := newStatus, order_updatedAt := now\<rparr>;
               o2 = (if truthy exPrice then o1\<lparr>executedPrice := exPrice\<rparr> else o1);
               o3 = (if truthy exQuantity then o2\<lparr>executedQuantity := exQuantity\<rparr> else o2)
           in (Some o3, st\<lparr>orders := AList.update orderId o3 (orders st)\<rparr>))
      | None \<Rightarrow> (None, st))"

definition store_createTrade :: "nat \<Rightarrow> string \<Rightarrow> store \<Rightarrow> trade \<Rightarrow> trade \<times> store" where
  "store_createTrade now tradeId st tradeData =
     (let tr = tradeData\<lparr>trade_id := tradeId, trade_createdAt := now\<rparr>
      in (tr, st\<lparr>trades := AList.update tradeId tr (trades st)\<rparr>))"

text \<open>
  \<open>updatePortfolio(userId, symbol, quantity, price, orderType)\<close>. The division
  \<open>totalInvestment / totalQuantity\<close> is NaN or infinite in JavaScript when the new
  quantity is zero, and 0 in HOL: no theorem below relies on that case.
\<close>

definition portfolioKey :: "string \<Rightarrow> string \<Rightarrow> string" where
  "portfolioKey userId symbol = userId @ ''_'' @ symbol"

definition newHolding :: "nat \<Rightarrow> string \<Rightarrow> string \<Rightarrow> holding" where
  "newHolding now userId symbol =
     \<lparr>holding_userId = userId, holding_symbol = symbol, quantity = 0, totalInvestment = 0,
      averagePrice = 0, holding_updatedAt = now\<rparr>"

definition applyTrade :: "holding \<Rightarrow> number \<Rightarrow> number \<Rightarrow> order_type \<Rightarrow> holding" where
  "applyTrade h qty price ot =
     (case ot of
        BUY \<Rightarrow>
          (let totalInvestment' = totalInvestment h + qty * price;
               totalQuantity = quantity h + qty
           in h\<lparr>quantity := totalQuantity, totalInvestment := totalInvestment',
                averagePrice := totalInvestment' / totalQuantity\<rparr>)
      | SELL \<Rightarrow>
          (let h1 = h\<lparr>quantity := max 0 (quantity h - qty)\<rparr>
           in if quantity h1 = 0 then h1\<lparr>totalInvestment := 0, averagePrice := 0\<rparr> else h1))"

definition updatePortfolio ::
  "nat \<Rightarrow> store \<Rightarrow> string \<Rightarrow> string \<Rightarrow> number \<Rightarrow> number \<Rightarrow> order_type \<Rightarrow> holding \<times> store" where
  "updatePortfolio now st userId symbol qty price ot =
     (let key = portfolioKey userId symbol;
          h0 = (case map_of (portfolio st) key of
                  Some h \<Rightarrow> h
                | None \<Rightarrow> newHolding now userId symbol);
          h1 = (applyTrade h0 qty price ot)\<lparr>holding_updatedAt := now\<rparr>
      in (h1, st\<lparr>portfolio := AList.update key h1 (portfolio st)\<rparr>))"

text \<open>
  \<open>getPortfolio(userId)\<close>: the user's holdings of positive quantity, each with the
  values derived from the instrument's price. The percentage, a string made by
  \<open>toFixed\<close>, is left out.
\<close>

record portfolioEntry =
  entry_holding :: holding
  entry_currentPrice :: number
  entry_currentValue :: number
  entry_totalReturn :: number

definition enrich :: "store \<Rightarrow> holding \<Rightarrow> portfolioEntry" where
  "enrich st h =
     (let cp = (case store_getInstrumentBySymbol st (holding_symbol h) of
                  Some inst \<Rightarrow> lastTradedPrice inst
                | None \<Rightarrow> 0);
          cv = quantity h * cp
      in \<lparr>entry_holding = h, entry_currentPrice = cp, entry_currentValue = cv,
          entry_totalReturn = cv - totalInvestment h\<rparr>)"

definition getPortfolio :: "store \<Rightarrow> string \<Rightarrow> portfolioEntry list" where
  "getPortfolio st userId =
     map (enrich st)
       (filter (\<lambda>h. holding_userId h = userId \<and> quantity h > 0) (map snd (portfolio st)))"

section \<open>Errors\<close>

text \<open>
  \<open>AppError(message, statusCode)\<close>. The messages are template strings; each template is
  a constructor that carries the values the template interpolates.
\<close>

datatype error_message =
    InvalidInstrumentSymbol string
  | InstrumentNotFound string
  | InsufficientQuantity number number
  | FailedToUpdatePriceFor string
  | PriceRequiredForLimit
  | NoExecutionPrice

datatype app_error = AppError error_message nat

definition BAD_REQUEST :: nat where "BAD_REQUEST = 400"

definition NOT_FOUND :: nat where "NOT_FOUND = 404"

definition INTERNAL_SERVER_ERROR :: nat where "INTERNAL_SERVER_ERROR = 500"

section \<open>\<open>services/instrumentService.js\<close>\<close>

definition getInstrumentBySymbol :: "store \<Rightarrow> string \<Rightarrow> app_error + instrument" where
  "getInstrumentBySymbol st symbol =
     (case store_getInstrumentBySymbol st symbol of
        None \<Rightarrow> Inl (AppError (InstrumentNotFound symbol) NOT_FOUND)
      | Some inst \<Rightarrow> Inr inst)"

definition getCurrentPrice :: "store \<Rightarrow> string \<Rightarrow> app_error + number" where
  "getCurrentPrice st symbol =
     (case getInstrumentBySymbol st symbol of
        Inl e \<Rightarrow> Inl e
      | Inr inst \<Rightarrow> Inr (lastTradedPrice inst))"

definition updatePrice :: "store \<Rightarrow> string \<Rightarrow> number \<Rightarrow> (app_error + bool) \<times> store" where
  "updatePrice st symbol newPrice =
     (case updateInstrumentPrice st symbol newPrice of
        (success, st') \<Rightarrow>
          if \<not> success then (Inl (AppError (FailedToUpdatePriceFor symbol) NOT_FOUND), st')
          else (Inr True, st'))"

definition validateInstrument :: "store \<Rightarrow> string \<Rightarrow> bool" where
  "validateInstrument st symbol = (store_getInstrumentBySymbol st symbol \<noteq> None)"

section \<open>\<open>services/tradeService.js\<close>\<close>

text \<open>
  \<open>createTrade(tradeData)\<close>. The trade reference that \<open>generateTradeReference()\<close>
  builds from the clock and \<open>Math.random()\<close> is the argument \<open>reference\<close>.
\<close>

definition createTrade ::
  "nat \<Rightarrow> string \<Rightarrow> string \<Rightarrow> store \<Rightarrow> string \<Rightarrow> string \<Rightarrow> string \<Rightarrow> order_type \<Rightarrow> number \<Rightarrow> number
     \<Rightarrow> trade \<times> store" where
  "createTrade now tradeId reference st userId orderId symbol ot qty price =
     (let totalAmount' = qty * price
      in store_createTrade now tradeId st
           \<lparr>trade_id = tradeId, trade_userId = userId, trade_orderId = orderId,
            trade_symbol = symbol, trade_orderType = ot, trade_quantity = qty,
            trade_price = price, totalAmount = totalAmount', tradeReference = reference,
            executedAt = now, trade_createdAt = now\<rparr>)"

section \<open>\<open>services/portfolioService.js\<close>\<close>

text \<open>\<open>String.prototype.toLowerCase\<close> and \<open>toUpperCase\<close>, on ASCII letters.\<close>

definition lower_char :: "char \<Rightarrow> char" where
  "lower_char c =
     (let n = (of_char c :: nat) in if 65 \<le> n \<and> n \<le> 90 then char_of (n + 32) else c)"

definition toLowerCase :: "string \<Rightarrow> string" where
  "toLowerCase s = map lower_char s"

definition upper_char :: "char \<Rightarrow> char" where
  "upper_char c =
     (let n = (of_char c :: nat) in if 97 \<le> n \<and> n \<le> 122 then char_of (n - 32) else c)"

definition toUpperCase :: "string \<Rightarrow> string" where
  "toUpperCase s = map upper_char s"

definition getHoldingBySymbol :: "store \<Rightarrow> string \<Rightarrow> string \<Rightarrow> portfolioEntry option" where
  "getHoldingBySymbol st userId symbol =
     find (\<lambda>h. toLowerCase (holding_symbol (entry_holding h)) = toLowerCase symbol)
       (getPortfolio st userId)"

text \<open>
  \<open>updatePortfolioAfterTrade\<close>. A thrown \<open>AppError\<close> is the left summand; the store
  that comes back with it is the store at the moment of the throw.
\<close>

definition updatePortfolioAfterTrade ::
  "nat \<Rightarrow> store \<Rightarrow> string \<Rightarrow> string \<Rightarrow> number \<Rightarrow> number \<Rightarrow> order_type
     \<Rightarrow> (app_error + holding) \<times> store" where
  "updatePortfolioAfterTrade now st userId symbol qty price ot =
     (if \<not> validateInstrument st symbol then
        (Inl (AppError (InvalidInstrumentSymbol symbol) BAD_REQUEST), st)
      else
        (let currentHolding = getHoldingBySymbol st userId symbol
         in if ot = SELL \<and>
               (case currentHolding of
                  None \<Rightarrow> True
                | Some h \<Rightarrow> quantity (entry_holding h) < qty)
            then
              (Inl (AppError
                      (InsufficientQuantity
                         (case currentHolding of
                            None \<Rightarrow> 0
                          | Some h \<Rightarrow> quantity (entry_holding h)) qty)
                      BAD_REQUEST), st)
            else
              (case updatePortfolio now st userId symbol qty price ot of
                 (updatedHolding, st') \<Rightarrow> (Inr updatedHolding, st'))))"

section \<open>\<open>services/orderService.js\<close>\<close>

text \<open>
  What one execution attempt reads from outside: the clock, the \<open>Math.random()\<close> draw
  of the slippage, the id and the reference of the trade it may create.
\<close>

record env =
  env_now :: nat
  env_random :: number
  env_tradeId :: string
  env_tradeReference :: string

text \<open>
  The \<open>try\<close> block of \<open>attemptOrderExecution\<close>; an exception is the left summand. The
  fields of \<open>order\<close> read after \<open>updateOrderStatus\<close> are not the ones it writes, so
  they are read from \<open>ord\<close>. An undefined execution price has no value in the number
  model; it arises for no order (lemma \<open>executionPrice_defined\<close>), and the model stops
  there with \<open>NoExecutionPrice\<close>.
\<close>

definition attemptOrderExecution_try :: "env \<Rightarrow> store \<Rightarrow> string \<Rightarrow> (app_error + order option) \<times> store" where
  "attemptOrderExecution_try e st orderId =
     (case getOrderById st orderId of
        None \<Rightarrow> (Inr None, st)
      | Some ord \<Rightarrow>
          if status ord \<noteq> PLACED then (Inr None, st)
          else
            (case getCurrentPrice st (order_symbol ord) of
               Inl err \<Rightarrow> (Inl err, st)
             | Inr currentPrice \<Rightarrow>
                 (let canExecute =
                        (if orderStyle ord = MARKET then True
                         else canExecuteLimitOrder ord currentPrice)
                  in if \<not> canExecute then (Inr None, st)
                     else
                       (case calculateExecutionPrice (env_random e) ord currentPrice of
                          None \<Rightarrow> (Inl (AppError NoExecutionPrice INTERNAL_SERVER_ERROR), st)
                        | Some executionPrice \<Rightarrow>
                            (case updateOrderStatus (env_now e) st orderId EXECUTED
                                    (Some executionPrice) (Some (order_quantity ord)) of
                               (executedOrder, st1) \<Rightarrow>
                                 (case createTrade (env_now e) (env_tradeId e) (env_tradeReference e) st1
                                         (order_userId ord) (order_id ord) (order_symbol ord)
                                         (orderType ord) (order_quantity ord) executionPrice of
                                    (tr, st2) \<Rightarrow>
                                      (case updatePortfolioAfterTrade (env_now e) st2
                                              (order_userId ord) (order_symbol ord)
                                              (order_quantity ord) executionPrice
                                              (orderType ord) of
                                         (Inl err, st3) \<Rightarrow> (Inl err, st3)
                                       | (Inr h, st3) \<Rightarrow> (Inr executedOrder, st3))))))))"

text \<open>The \<open>catch\<close>: the error is logged and the attempt returns \<open>null\<close>.\<close>

definition attemptOrderExecution :: "env \<Rightarrow> store \<Rightarrow> string \<Rightarrow> order option \<times> store" where
  "attemptOrderExecution e st orderId =
     (case attemptOrderExecution_try e st orderId of
        (Inl err, st') \<Rightarrow> (None, st')
      | (Inr r, st') \<Rightarrow> (r, st'))"

text \<open>
  \<open>placeOrder(orderData)\<close>. \<open>placedOrder\<close> and \<open>executedOrder\<close> are the object that
  the \<open>orders\<close> map holds, mutated in place, so \<open>executedOrder || placedOrder\<close> is the
  stored order as it is after the attempt. The \<open>uuidv4()\<close> of the order is \<open>orderId\<close>.
\<close>

definition placeOrder :: "env \<Rightarrow> string \<Rightarrow> store \<Rightarrow> orderData \<Rightarrow> (app_error + order) \<times> store" where
  "placeOrder e orderId st od =
     (if \<not> validateInstrument st (od_symbol od) then
        (Inl (AppError (InvalidInstrumentSymbol (od_symbol od)) BAD_REQUEST), st)
      else
        (case getCurrentPrice st (od_symbol od) of
           Inl err \<Rightarrow> (Inl err, st)
         | Inr currentPrice \<Rightarrow>
             if od_orderStyle od = LIMIT \<and>
                (case od_price od of None \<Rightarrow> True | Some p \<Rightarrow> p = 0 \<or> p \<le> 0)
             then (Inl (AppError PriceRequiredForLimit BAD_REQUEST), st)
             else
               (case createOrder (env_now e) orderId st od NEW of
                  (ord, st1) \<Rightarrow>
                    (case updateOrderStatus (env_now e) st1 (order_id ord) PLACED None None of
                       (placedOrder, st2) \<Rightarrow>
                         (case attemptOrderExecution e st2 (order_id ord) of
                            (executedOrder, st3) \<Rightarrow>
                              (case getOrderById st3 (order_id ord) of
                                 Some stored \<Rightarrow> (Inr stored, st3)
                               | None \<Rightarrow> (Inr ord, st3)))))))"

section \<open>Execution decision and execution price\<close>

definition exampleOrder :: "order_type \<Rightarrow> order_style \<Rightarrow> number option \<Rightarrow> order" where
  "exampleOrder t s p =
     \<lparr>order_id = ''o1'', order_userId = ''user_001'', order_symbol = ''TCS'',
      orderType = t, orderStyle = s, order_quantity = 10, order_price = p,
      status = PLACED, executedPrice = None, executedQuantity = None,
      order_createdAt = 0, order_updatedAt = 0\<rparr>"

text \<open>
  Claim C3. The execution-decision function \<open>canExecuteLimitOrder\<close> judges a MARKET
  order executable at every price, a LIMIT BUY order with limit price \<open>l\<close> executable
  exactly when the current price is at most \<open>l\<close>, and a LIMIT SELL order with limit
  price \<open>l\<close> executable exactly when the current price is at least \<open>l\<close>.
\<close>

theorem canExecuteLimitOrder_decision:
  "(orderStyle ord = MARKET \<longrightarrow> canExecuteLimitOrder ord cp) \<and>
   (orderStyle ord = LIMIT \<and> orderType ord = BUY \<and> order_price ord = Some l \<longrightarrow>
      (canExecuteLimitOrder ord cp \<longleftrightarrow> cp \<le> l)) \<and>
   (orderStyle ord = LIMIT \<and> orderType ord = SELL \<and> order_price ord = Some l \<longrightarrow>
      (canExecuteLimitOrder ord cp \<longleftrightarrow> cp \<ge> l))"
  by (simp add: canExecuteLimitOrder_def js_le_def js_ge_def)

theorem canExecuteLimitOrder_decision_witness:
  "canExecuteLimitOrder (exampleOrder BUY MARKET None) 3890 \<and>
   canExecuteLimitOrder (exampleOrder BUY LIMIT (Some 3900)) 3890 \<and>
   \<not> canExecuteLimitOrder (exampleOrder BUY LIMIT (Some 3800)) 3890 \<and>
   canExecuteLimitOrder (exampleOrder SELL LIMIT (Some 3800)) 3890 \<and>
   \<not> canExecuteLimitOrder (exampleOrder SELL LIMIT (Some 3900)) 3890"
  using canExecuteLimitOrder_decision [of "exampleOrder BUY MARKET None" 3890 0]
    canExecuteLimitOrder_decision [of "exampleOrder BUY LIMIT (Some 3900)" 3890 3900]
    canExecuteLimitOrder_decision [of "exampleOrder BUY LIMIT (Some 3800)" 3890 3800]
    canExecuteLimitOrder_decision [of "exampleOrder SELL LIMIT (Some 3800)" 3890 3800]
    canExecuteLimitOrder_decision [of "exampleOrder SELL LIMIT (Some 3900)" 3890 3900]
  by (simp add: exampleOrder_def)






section \<open>Holdings\<close>

text \<open>
  What the store holds for a user and a symbol: the fields of the holding kept under the
  key of that pair, and zero when there is none.
\<close>

definition heldQuantity :: "store \<Rightarrow> string \<Rightarrow> string \<Rightarrow> number" where
  "heldQuantity st userId symbol =
     (case map_of (portfolio st) (portfolioKey userId symbol) of
        None \<Rightarrow> 0
      | Some h \<Rightarrow> quantity h)"

definition heldInvestment :: "store \<Rightarrow> string \<Rightarrow> string \<Rightarrow> number" where
  "heldInvestment st userId symbol =
     (case map_of (portfolio st) (portfolioKey userId symbol) of
        None \<Rightarrow> 0
      | Some h \<Rightarrow> totalInvestment h)"

definition heldAverage :: "store \<Rightarrow> string \<Rightarrow> string \<Rightarrow> number" where
  "heldAverage st userId symbol =
     (case map_of (portfolio st) (portfolioKey userId symbol) of
        None \<Rightarrow> 0
      | Some h \<Rightarrow> averagePrice h)"

text \<open>
  The stores the services build: a holding sits under the key made of its own user and
  symbol, its symbol is a listed instrument, and no two instruments have symbols that
  differ only in the case of their letters (\<open>getHoldingBySymbol\<close> compares symbols after
  \<open>toLowerCase\<close>).
\<close>

definition wf_store :: "store \<Rightarrow> bool" where
  "wf_store st \<longleftrightarrow>
     distinct (map fst (portfolio st)) \<and>
     list_all (\<lambda>(k, h). k = portfolioKey (holding_userId h) (holding_symbol h) \<and>
                         validateInstrument st (holding_symbol h)) (portfolio st) \<and>
     distinct (map (toLowerCase \<circ> fst) (instruments st))"

text \<open>
  A fill is one call of \<open>updatePortfolio\<close>, at the clock reading \<open>fill_time\<close>; a
  sequence of fills is applied from left to right. \<open>updatePortfolioAfterTrade\<close>
  either applies the same update or throws and changes nothing.
\<close>

record fill =
  fill_time :: nat
  fill_userId :: string
  fill_symbol :: string
  fill_quantity :: number
  fill_price :: number
  fill_orderType :: order_type

definition fill_key :: "fill \<Rightarrow> string" where
  "fill_key f = portfolioKey (fill_userId f) (fill_symbol f)"

definition applyFill :: "store \<Rightarrow> fill \<Rightarrow> store" where
  "applyFill st f =
     snd (updatePortfolio (fill_time f) st (fill_userId f) (fill_symbol f) (fill_quantity f)
            (fill_price f) (fill_orderType f))"

definition applyFills :: "store \<Rightarrow> fill list \<Rightarrow> store" where
  "applyFills st fs = foldl applyFill st fs"

definition holding_ok :: "holding \<Rightarrow> bool" where
  "holding_ok h \<longleftrightarrow>
     quantity h \<ge> 0 \<and> (quantity h = 0 \<longrightarrow> totalInvestment h = 0 \<and> averagePrice h = 0)"

definition boughtStore :: store where
  "boughtStore = snd (updatePortfolioAfterTrade 1 MemoryStore ''user_001'' ''RELIANCE'' 5 2450 BUY)"

definition exampleFills :: "fill list" where
  "exampleFills =
     [\<lparr>fill_time = 1, fill_userId = ''user_001'', fill_symbol = ''TCS'', fill_quantity = 10,
       fill_price = 100, fill_orderType = BUY\<rparr>,
      \<lparr>fill_time = 2, fill_userId = ''user_001'', fill_symbol = ''TCS'', fill_quantity = 5,
       fill_price = 130, fill_orderType = SELL\<rparr>,
      \<lparr>fill_time = 3, fill_userId = ''user_001'', fill_symbol = ''TCS'', fill_quantity = 7,
       fill_price = 90, fill_orderType = SELL\<rparr>]"

definition buyTCS :: "nat \<Rightarrow> number \<Rightarrow> number \<Rightarrow> fill" where
  "buyTCS t q p =
     \<lparr>fill_time = t, fill_userId = ''user_001'', fill_symbol = ''TCS'', fill_quantity = q,
      fill_price = p, fill_orderType = BUY\<rparr>"

definition sellINFY :: "nat \<Rightarrow> number \<Rightarrow> number \<Rightarrow> fill" where
  "sellINFY t q p =
     \<lparr>fill_time = t, fill_userId = ''user_001'', fill_symbol = ''INFY'', fill_quantity = q,
      fill_price = p, fill_orderType = SELL\<rparr>"

text \<open>
  Two orders placed through \<open>placeOrder\<close> on the fresh store: a LIMIT BUY of 10 RELIANCE
  at 2500 and then a LIMIT SELL of 4 RELIANCE at 2400. The market price is 2450.75, so
  both execute at once, at their limit prices.
\<close>

definition limitBuy :: orderData where
  "limitBuy =
     \<lparr>od_userId = ''user_001'', od_symbol = ''RELIANCE'', od_orderType = BUY,
      od_orderStyle = LIMIT, od_quantity = 10, od_price = Some 2500\<rparr>"

definition limitSell :: orderData where
  "limitSell =
     \<lparr>od_userId = ''user_001'', od_symbol = ''RELIANCE'', od_orderType = SELL,
      od_orderStyle = LIMIT, od_quantity = 4, od_price = Some 2400\<rparr>"

definition tradedStore :: store where
  "tradedStore =
     snd (placeOrder
            \<lparr>env_now = 2, env_random = 1 / 2, env_tradeId = ''t2'', env_tradeReference = ''TXN2''\<rparr>
            ''o2''
            (snd (placeOrder
                    \<lparr>env_now = 1, env_random = 1 / 2, env_tradeId = ''t1'',
                     env_tradeReference = ''TXN1''\<rparr>
                    ''o1'' MemoryStore limitBuy))
            limitSell)"

subsection \<open>BUY fills\<close>

text \<open>
  Claim C4. A BUY fill of quantity \<open>q\<close> at price \<open>p\<close> on a holding with prior quantity
  \<open>Q\<close> and prior cost basis \<open>C\<close> (both zero when there is no holding), with \<open>Q + q\<close>
  not zero, leaves a holding with cost basis \<open>C + q * p\<close>, quantity \<open>Q + q\<close> and average
  price \<open>(C + q * p) / (Q + q)\<close>, stored under the key of the pair; for a listed symbol
  the service returns that holding. Buying 10 at 100 and then 10 at 120 gives quantity
  20 and average price 110.
\<close>

theorem buy_fill_weighted_average:
  assumes "heldQuantity st userId symbol + qty \<noteq> 0"
  shows "(let Q = heldQuantity st userId symbol; C = heldInvestment st userId symbol;
              r = updatePortfolio now st userId symbol qty price BUY
          in totalInvestment (fst r) = C + qty * price \<and>
             quantity (fst r) = Q + qty \<and>
             averagePrice (fst r) = (C + qty * price) / (Q + qty) \<and>
             map_of (portfolio (snd r)) (portfolioKey userId symbol) = Some (fst r) \<and>
             (validateInstrument st symbol \<longrightarrow>
                updatePortfolioAfterTrade now st userId symbol qty price BUY = (Inr (fst r), snd r))) \<and>
         (let s1 = snd (updatePortfolio 1 MemoryStore ''user_001'' ''TCS'' 10 100 BUY);
              h2 = fst (updatePortfolio 2 s1 ''user_001'' ''TCS'' 10 120 BUY)
          in quantity h2 = 20 \<and> averagePrice h2 = 110)"
proof -
  have ex: "(let s1 = snd (updatePortfolio 1 MemoryStore ''user_001'' ''TCS'' 10 100 BUY);
              h2 = fst (updatePortfolio 2 s1 ''user_001'' ''TCS'' 10 120 BUY)
          in quantity h2 = 20 \<and> averagePrice h2 = 110)"
    by code_simp
  have gen: "(let Q = heldQuantity st userId symbol; C = heldInvestment st userId symbol;
              r = updatePortfolio now st userId symbol qty price BUY
          in totalInvestment (fst r) = C + qty * price \<and>
             quantity (fst r) = Q + qty \<and>
             averagePrice (fst r) = (C + qty * price) / (Q + qty) \<and>
             map_of (portfolio (snd r)) (portfolioKey userId symbol) = Some (fst r) \<and>
             (validateInstrument st symbol \<longrightarrow>
                updatePortfolioAfterTrade now st userId symbol qty price BUY = (Inr (fst r), snd r)))"
    by (cases "map_of (portfolio st) (portfolioKey userId symbol)")
       (simp_all add: Let_def updatePortfolio_def applyTrade_def heldQuantity_def
          heldInvestment_def newHolding_def updatePortfolioAfterTrade_def AList.update_conv')
  from gen ex show ?thesis by blast
qed

theorem buy_fill_weighted_average_witness:
  "heldQuantity boughtStore ''user_001'' ''RELIANCE'' + 10 \<noteq> 0 \<and>
   (let r = updatePortfolio 2 boughtStore ''user_001'' ''RELIANCE'' 10 2600 BUY
    in totalInvestment (fst r) = 38250 \<and> quantity (fst r) = 15 \<and>
       averagePrice (fst r) = 2550 \<and>
       updatePortfolioAfterTrade 2 boughtStore ''user_001'' ''RELIANCE'' 10 2600 BUY
         = (Inr (fst r), snd r))"
proof -
  have q: "heldQuantity boughtStore ''user_001'' ''RELIANCE'' = 5" by code_simp
  have c: "heldInvestment boughtStore ''user_001'' ''RELIANCE'' = 12250" by code_simp
  have v: "validateInstrument boughtStore ''RELIANCE''" by code_simp
  from q have n: "heldQuantity boughtStore ''user_001'' ''RELIANCE'' + 10 \<noteq> 0" by simp
  from buy_fill_weighted_average [OF n, of 2 2600] v show ?thesis
    by (simp add: q c Let_def)
qed

subsection \<open>SELL fills\<close>

lemma getHoldingBySymbol_SomeD:
  assumes "getHoldingBySymbol st userId symbol = Some e"
  shows "\<exists>k. (k, entry_holding e) \<in> set (portfolio st) \<and>
             holding_userId (entry_holding e) = userId \<and>
             toLowerCase (holding_symbol (entry_holding e)) = toLowerCase symbol"
proof -
  from assms have "e \<in> set (getPortfolio st userId)"
    and l: "toLowerCase (holding_symbol (entry_holding e)) = toLowerCase symbol"
    unfolding getHoldingBySymbol_def by (auto simp: find_Some_iff)
  then obtain h where h: "h \<in> snd ` set (portfolio st)" "holding_userId h = userId" "e = enrich st h"
    unfolding getPortfolio_def by auto
  then have "entry_holding e = h" by (simp add: enrich_def Let_def)
  with h l show ?thesis by auto
qed

lemma distinct_lower_keys:
  assumes "distinct (map (f \<circ> fst) xs)" "map_of xs a \<noteq> None" "map_of xs b \<noteq> None" "f a = f b"
  shows "a = b"
proof -
  from assms(2,3) have "a \<in> fst ` set xs" "b \<in> fst ` set xs"
    by (auto simp: map_of_eq_None_iff)
  moreover from assms(1) have "inj_on f (fst ` set xs)"
    by (metis distinct_map list.set_map map_map)
  ultimately show ?thesis using assms(4) by (auto dest: inj_onD)
qed

lemma found_holding_is_stored:
  assumes wf: "wf_store st" and v: "validateInstrument st symbol"
    and g: "getHoldingBySymbol st userId symbol = Some e"
  shows "map_of (portfolio st) (portfolioKey userId symbol) = Some (entry_holding e)"
proof -
  from getHoldingBySymbol_SomeD [OF g] obtain k where
    k: "(k, entry_holding e) \<in> set (portfolio st)"
    and u: "holding_userId (entry_holding e) = userId"
    and l: "toLowerCase (holding_symbol (entry_holding e)) = toLowerCase symbol"
    by blast
  from wf k have kk: "k = portfolioKey (holding_userId (entry_holding e)) (holding_symbol (entry_holding e))"
    and vi: "validateInstrument st (holding_symbol (entry_holding e))"
    unfolding wf_store_def by (auto simp: list_all_iff)
  from wf have d: "distinct (map (toLowerCase \<circ> fst) (instruments st))"
    unfolding wf_store_def by simp
  from distinct_lower_keys [OF d _ _ l] vi v
  have "holding_symbol (entry_holding e) = symbol"
    unfolding validateInstrument_def store_getInstrumentBySymbol_def by simp
  with kk u have "k = portfolioKey userId symbol" by simp
  moreover from wf have "distinct (map fst (portfolio st))" unfolding wf_store_def by simp
  ultimately show ?thesis using k by simp
qed

text \<open>
  Claim C5. In a well-formed store, a SELL fill whose quantity exceeds the quantity the
  store holds for that user and symbol (zero when there is no holding) makes
  \<open>updatePortfolioAfterTrade\<close> throw and leaves the store, and so the stored holding,
  as it was; for a listed symbol the error is the insufficient-quantity \<open>AppError\<close>
  with status 400.
\<close>

theorem sell_more_than_held_fails:
  assumes wf: "wf_store st" and less: "heldQuantity st userId symbol < qty"
  shows "\<exists>err. updatePortfolioAfterTrade now st userId symbol qty price SELL = (Inl err, st) \<and>
           (validateInstrument st symbol \<longrightarrow>
              (\<exists>available. err = AppError (InsufficientQuantity available qty) BAD_REQUEST))"
proof (cases "validateInstrument st symbol")
  case False
  then show ?thesis by (simp add: updatePortfolioAfterTrade_def)
next
  case True
  have "case getHoldingBySymbol st userId symbol of None \<Rightarrow> True
        | Some h \<Rightarrow> quantity (entry_holding h) < qty"
  proof (cases "getHoldingBySymbol st userId symbol")
    case None
    then show ?thesis by simp
  next
    case (Some e)
    from found_holding_is_stored [OF wf True Some] less
    have "quantity (entry_holding e) < qty" by (simp add: heldQuantity_def)
    with Some show ?thesis by simp
  qed
  with True show ?thesis by (simp add: updatePortfolioAfterTrade_def Let_def)
qed

theorem sell_more_than_held_fails_witness:
  "wf_store boughtStore \<and> heldQuantity boughtStore ''user_001'' ''RELIANCE'' < 10 \<and>
   wf_store MemoryStore \<and> heldQuantity MemoryStore ''user_001'' ''TCS'' < 1 \<and>
   validateInstrument boughtStore ''RELIANCE'' \<and> validateInstrument MemoryStore ''TCS'' \<and>
   (\<exists>available.
      updatePortfolioAfterTrade 2 boughtStore ''user_001'' ''RELIANCE'' 10 2450 SELL
        = (Inl (AppError (InsufficientQuantity available 10) BAD_REQUEST), boughtStore)) \<and>
   (\<exists>available.
      updatePortfolioAfterTrade 2 MemoryStore ''user_001'' ''TCS'' 1 3890 SELL
        = (Inl (AppError (InsufficientQuantity available 1) BAD_REQUEST), MemoryStore))"
proof -
  have w1: "wf_store boughtStore" by code_simp
  have q1: "heldQuantity boughtStore ''user_001'' ''RELIANCE'' < 10" by code_simp
  have v1: "validateInstrument boughtStore ''RELIANCE''" by code_simp
  have w2: "wf_store MemoryStore" by code_simp
  have q2: "heldQuantity MemoryStore ''user_001'' ''TCS'' < 1" by code_simp
  have v2: "validateInstrument MemoryStore ''TCS''" by code_simp
  from sell_more_than_held_fails [OF w1 q1, of 2 2450] v1
  have r1: "\<exists>available.
      updatePortfolioAfterTrade 2 boughtStore ''user_001'' ''RELIANCE'' 10 2450 SELL
        = (Inl (AppError (InsufficientQuantity available 10) BAD_REQUEST), boughtStore)"
    by auto
  from sell_more_than_held_fails [OF w2 q2, of 2 3890] v2
  have r2: "\<exists>available.
      updatePortfolioAfterTrade 2 MemoryStore ''user_001'' ''TCS'' 1 3890 SELL
        = (Inl (AppError (InsufficientQuantity available 1) BAD_REQUEST), MemoryStore)"
    by auto
  from w1 q1 v1 w2 q2 v2 r1 r2 show ?thesis by blast
qed

subsection \<open>Sequences of fills\<close>

lemma applyTrade_ok:
  assumes "holding_ok h" "0 < qty"
  shows "holding_ok (applyTrade h qty price ot)"
proof (cases ot)
  case BUY
  with assms show ?thesis by (simp add: holding_ok_def applyTrade_def Let_def)
next
  case SELL
  with assms show ?thesis by (auto simp: holding_ok_def applyTrade_def Let_def max_def)
qed

lemma set_update_subset: "set (AList.update k v xs) \<subseteq> insert (k, v) (set xs)"
  by (induction xs) auto

lemma prior_holding_ok:
  assumes "list_all (holding_ok \<circ> snd) (portfolio st)"
  shows "holding_ok (case map_of (portfolio st) key of Some h \<Rightarrow> h | None \<Rightarrow> newHolding t u s)"
proof (cases "map_of (portfolio st) key")
  case None
  then show ?thesis by (simp add: holding_ok_def newHolding_def)
next
  case (Some h)
  then have "(key, h) \<in> set (portfolio st)" by (rule map_of_SomeD)
  with assms Some show ?thesis by (auto simp: list_all_iff)
qed

lemma applyFill_ok:
  assumes ok: "list_all (holding_ok \<circ> snd) (portfolio st)" and q: "0 < fill_quantity f"
  shows "list_all (holding_ok \<circ> snd) (portfolio (applyFill st f))"
proof -
  let ?key = "portfolioKey (fill_userId f) (fill_symbol f)"
  let ?h0 = "case map_of (portfolio st) ?key of Some h \<Rightarrow> h
             | None \<Rightarrow> newHolding (fill_time f) (fill_userId f) (fill_symbol f)"
  let ?h1 = "(applyTrade ?h0 (fill_quantity f) (fill_price f) (fill_orderType f))
               \<lparr>holding_updatedAt := fill_time f\<rparr>"
  have p: "portfolio (applyFill st f) = AList.update ?key ?h1 (portfolio st)"
    by (simp add: applyFill_def updatePortfolio_def Let_def)
  have "holding_ok ?h0" using ok by (rule prior_holding_ok)
  then have "holding_ok (applyTrade ?h0 (fill_quantity f) (fill_price f) (fill_orderType f))"
    using q by (rule applyTrade_ok)
  then have h1: "holding_ok ?h1" by (simp add: holding_ok_def)
  show ?thesis unfolding p list_all_iff
  proof
    fix x assume "x \<in> set (AList.update ?key ?h1 (portfolio st))"
    with set_update_subset have "x = (?key, ?h1) \<or> x \<in> set (portfolio st)" by fastforce
    with h1 ok show "(holding_ok \<circ> snd) x" by (auto simp: list_all_iff)
  qed
qed

lemma applyFills_ok:
  assumes "list_all (holding_ok \<circ> snd) (portfolio st)" "list_all (\<lambda>f. 0 < fill_quantity f) fs"
  shows "list_all (holding_ok \<circ> snd) (portfolio (applyFills st fs))"
  using assms unfolding applyFills_def
  by (induction fs arbitrary: st) (simp_all add: applyFill_ok)

text \<open>
  Claim C6. After any sequence of BUY and SELL fills of positive quantity, applied to the
  fresh store, every stored holding has a quantity that is not negative, and a holding
  of quantity 0 has cost basis 0 and average price 0.
\<close>

theorem holdings_invariant:
  assumes "list_all (\<lambda>f. 0 < fill_quantity f) fs"
  shows "list_all (\<lambda>(k, h). quantity h \<ge> 0 \<and>
                     (quantity h = 0 \<longrightarrow> totalInvestment h = 0 \<and> averagePrice h = 0))
           (portfolio (applyFills MemoryStore fs))"
proof -
  have "portfolio MemoryStore = []"
    by (simp add: MemoryStore_def initializeSampleData_def)
  then have "list_all (holding_ok \<circ> snd) (portfolio MemoryStore)" by simp
  from applyFills_ok [OF this assms]
  show ?thesis by (simp add: list_all_iff holding_ok_def case_prod_unfold)
qed

theorem holdings_invariant_witness:
  "list_all (\<lambda>f. 0 < fill_quantity f) (exampleFills @ exampleFills) \<and>
   list_all (\<lambda>(k, h). quantity h \<ge> 0 \<and>
               (quantity h = 0 \<longrightarrow> totalInvestment h = 0 \<and> averagePrice h = 0))
     (portfolio (applyFills MemoryStore (exampleFills @ exampleFills)))"
proof -
  have v: "list_all (\<lambda>f. 0 < fill_quantity f) (exampleFills @ exampleFills)"
    by code_simp
  from v holdings_invariant [OF v] show ?thesis by blast
qed

lemma applyFill_other_key:
  assumes "fill_key g \<noteq> k"
  shows "map_of (portfolio (applyFill st g)) k = map_of (portfolio st) k"
  using assms
  by (simp add: applyFill_def updatePortfolio_def Let_def fill_key_def AList.update_conv')

lemma applyFills_other_keys:
  assumes "list_all (\<lambda>g. fill_key g \<noteq> k) gs"
  shows "map_of (portfolio (applyFills st gs)) k = map_of (portfolio st) k"
  using assms unfolding applyFills_def
  by (induction gs arbitrary: st) (simp_all add: applyFill_other_key)

lemma applyFill_buy:
  assumes ok: "list_all (holding_ok \<circ> snd) (portfolio st)" and q: "0 < fill_quantity f"
    and b: "fill_orderType f = BUY"
  shows "\<exists>h. map_of (portfolio (applyFill st f)) (fill_key f) = Some h \<and> 0 < quantity h \<and>
             averagePrice h = totalInvestment h / quantity h"
proof -
  let ?key = "portfolioKey (fill_userId f) (fill_symbol f)"
  let ?h0 = "case map_of (portfolio st) ?key of Some h \<Rightarrow> h
             | None \<Rightarrow> newHolding (fill_time f) (fill_userId f) (fill_symbol f)"
  have "holding_ok ?h0" using ok by (rule prior_holding_ok)
  then have "0 \<le> quantity ?h0" by (simp add: holding_ok_def)
  with q b show ?thesis
    by (simp add: applyFill_def updatePortfolio_def Let_def fill_key_def AList.update_conv'
        applyTrade_def)
qed

lemma applyFills_append: "applyFills st (fs @ gs) = applyFills (applyFills st fs) gs"
  by (simp add: applyFills_def)

lemma average_after_buy:
  assumes v: "list_all (\<lambda>f. 0 < fill_quantity f) (fs @ f # gs)"
    and b: "fill_orderType f = BUY"
    and o: "list_all (\<lambda>g. fill_key g \<noteq> fill_key f) gs"
  shows "\<exists>h. map_of (portfolio (applyFills MemoryStore (fs @ f # gs))) (fill_key f) = Some h \<and>
             0 < quantity h \<and> averagePrice h = totalInvestment h / quantity h"
proof -
  have "portfolio MemoryStore = []"
    by (simp add: MemoryStore_def initializeSampleData_def)
  then have "list_all (holding_ok \<circ> snd) (portfolio MemoryStore)" by simp
  moreover from v have "list_all (\<lambda>f. 0 < fill_quantity f) fs" by simp
  ultimately have ok: "list_all (holding_ok \<circ> snd) (portfolio (applyFills MemoryStore fs))"
    by (rule applyFills_ok)
  from v have q: "0 < fill_quantity f" by simp
  have "applyFills MemoryStore (fs @ f # gs)
          = applyFills (applyFill (applyFills MemoryStore fs) f) gs"
    by (simp add: applyFills_def)
  then have "map_of (portfolio (applyFills MemoryStore (fs @ f # gs))) (fill_key f)
          = map_of (portfolio (applyFill (applyFills MemoryStore fs) f)) (fill_key f)"
    using applyFills_other_keys [OF o] by simp
  with applyFill_buy [OF ok q b] show ?thesis by simp
qed

lemma sell_keeps_average:
  assumes "qty < heldQuantity st userId symbol"
  shows "(let h = fst (updatePortfolio now st userId symbol qty price SELL)
          in quantity h = heldQuantity st userId symbol - qty \<and>
             totalInvestment h = heldInvestment st userId symbol \<and>
             averagePrice h = heldAverage st userId symbol)"
  using assms
  by (cases "map_of (portfolio st) (portfolioKey userId symbol)")
     (simp_all add: Let_def updatePortfolio_def applyTrade_def heldQuantity_def
        heldInvestment_def heldAverage_def newHolding_def)

text \<open>
  Claim C2, as the code has it. After any sequence of fills of positive quantity on the
  fresh store, a holding whose most recent fill was a BUY has a positive quantity and an
  average price equal to its cost basis divided by its quantity. A SELL fill that leaves
  a positive quantity changes neither the average price nor the cost basis, so after it
  the average price is in general not the cost basis divided by the quantity.
\<close>

theorem average_price_after_fills:
  "(list_all (\<lambda>f. 0 < fill_quantity f) (fs @ f # gs) \<and> fill_orderType f = BUY \<and>
    list_all (\<lambda>g. fill_key g \<noteq> fill_key f) gs \<longrightarrow>
      (\<exists>h. map_of (portfolio (applyFills MemoryStore (fs @ f # gs))) (fill_key f) = Some h \<and>
           0 < quantity h \<and> averagePrice h = totalInvestment h / quantity h)) \<and>
   (qty < heldQuantity st userId symbol \<longrightarrow>
      (let h = fst (updatePortfolio now st userId symbol qty price SELL)
       in quantity h = heldQuantity st userId symbol - qty \<and>
          totalInvestment h = heldInvestment st userId symbol \<and>
          averagePrice h = heldAverage st userId symbol))"
  using average_after_buy [of fs f gs] sell_keeps_average [of qty st userId symbol now price]
  by blast

theorem average_price_after_fills_witness:
  "(\<exists>h. map_of (portfolio (applyFills MemoryStore
                 ([buyTCS 1 10 100] @ buyTCS 2 10 120 # [sellINFY 3 3 1700])))
            (fill_key (buyTCS 2 10 120)) = Some h \<and>
        0 < quantity h \<and> averagePrice h = totalInvestment h / quantity h) \<and>
   2 < heldQuantity boughtStore ''user_001'' ''RELIANCE'' \<and>
   (let h = fst (updatePortfolio 2 boughtStore ''user_001'' ''RELIANCE'' 2 2600 SELL)
    in quantity h = 3 \<and> totalInvestment h = 12250 \<and> averagePrice h = 2450)"
proof -
  have a: "list_all (\<lambda>f. 0 < fill_quantity f)
             ([buyTCS 1 10 100] @ buyTCS 2 10 120 # [sellINFY 3 3 1700]) \<and>
           fill_orderType (buyTCS 2 10 120) = BUY \<and>
           list_all (\<lambda>g. fill_key g \<noteq> fill_key (buyTCS 2 10 120)) [sellINFY 3 3 1700]"
    by code_simp
  have q: "heldQuantity boughtStore ''user_001'' ''RELIANCE'' = 5" by code_simp
  have c: "heldInvestment boughtStore ''user_001'' ''RELIANCE'' = 12250" by code_simp
  have v: "heldAverage boughtStore ''user_001'' ''RELIANCE'' = 2450" by code_simp
  from q have l: "2 < heldQuantity boughtStore ''user_001'' ''RELIANCE''" by simp
  from average_price_after_fills
         [of "[buyTCS 1 10 100]" "buyTCS 2 10 120" "[sellINFY 3 3 1700]" 2 boughtStore
             "''user_001''" "''RELIANCE''" 2 2600] a l
  show ?thesis by (simp add: q c v Let_def)
qed

text \<open>
  The claim as the specification states it fails: after the BUY of 10 at 2500 and the SELL
  of 4, the holding has quantity 6, cost basis 25000 and average price 2500, which is
  not 25000 / 6.
\<close>

theorem average_price_counterexample:
  "heldQuantity tradedStore ''user_001'' ''RELIANCE'' = 6 \<and>
   heldInvestment tradedStore ''user_001'' ''RELIANCE'' = 25000 \<and>
   heldAverage tradedStore ''user_001'' ''RELIANCE'' = 2500 \<and>
   heldAverage tradedStore ''user_001'' ''RELIANCE''
     \<noteq> heldInvestment tradedStore ''user_001'' ''RELIANCE''
         / heldQuantity tradedStore ''user_001'' ''RELIANCE''"
  by code_simp

subsection \<open>What an execution attempt relies on\<close>

text \<open>
  An order that may execute has an execution price; a failed portfolio update leaves the
  store as it was; and the portfolio update reads nothing but the instruments and the
  holdings.
\<close>

lemma executionPrice_defined:
  assumes "orderStyle ord = MARKET \<or> canExecuteLimitOrder ord cp"
  shows "calculateExecutionPrice rnd ord cp \<noteq> None"
proof (cases "orderStyle ord")
  case MARKET
  then show ?thesis by (simp add: calculateExecutionPrice_def Let_def)
next
  case LIMIT
  with assms have "canExecuteLimitOrder ord cp" by simp
  with LIMIT show ?thesis
    by (cases "order_price ord")
       (auto simp: calculateExecutionPrice_def canExecuteLimitOrder_def js_le_def js_ge_def
          split: if_splits)
qed

lemma updatePortfolioAfterTrade_error:
  assumes "fst (updatePortfolioAfterTrade t st u s q p ot) = Inl err"
  shows "updatePortfolioAfterTrade t st u s q p ot = (Inl err, st)"
  using assms
  by (auto simp: updatePortfolioAfterTrade_def Let_def split: if_splits prod.splits)

lemma getHoldingBySymbol_reads:
  assumes "instruments st' = instruments st" "portfolio st' = portfolio st"
  shows "getHoldingBySymbol st' u s = getHoldingBySymbol st u s"
proof -
  have "enrich st' = enrich st"
    using assms by (simp add: fun_eq_iff enrich_def store_getInstrumentBySymbol_def)
  with assms show ?thesis by (simp add: getHoldingBySymbol_def getPortfolio_def)
qed

lemma updatePortfolioAfterTrade_reads:
  assumes "instruments st' = instruments st" "portfolio st' = portfolio st"
    and "fst (updatePortfolioAfterTrade t st u s q p ot) = Inl err"
  shows "fst (updatePortfolioAfterTrade t st' u s q p ot) = Inl err"
  using assms(3) assms(1) getHoldingBySymbol_reads [OF assms(1,2), of u s]
  by (auto simp: updatePortfolioAfterTrade_def Let_def validateInstrument_def
      store_getInstrumentBySymbol_def split: if_splits prod.splits)

subsection \<open>Well-formed stores\<close>

text \<open>
  The fresh store is well-formed, and the services keep it so: the portfolio update,
  the execution attempt, the placement of an order and the price update.
\<close>

lemma wf_store_MemoryStore: "wf_store MemoryStore"
  by code_simp

lemma validateInstrument_keys:
  "validateInstrument st s \<longleftrightarrow> s \<in> set (map fst (instruments st))"
  by (simp add: validateInstrument_def store_getInstrumentBySymbol_def map_of_eq_None_iff)

lemma wf_store_reads:
  assumes "wf_store st" "portfolio st' = portfolio st"
    "map fst (instruments st') = map fst (instruments st)"
  shows "wf_store st'"
proof -
  have "map (toLowerCase \<circ> fst) (instruments st') = map (toLowerCase \<circ> fst) (instruments st)"
    using assms(3) by (metis map_map)
  with assms show ?thesis by (simp add: wf_store_def validateInstrument_keys)
qed

lemma applyTrade_ident:
  "holding_userId (applyTrade h q p ot) = holding_userId h \<and>
   holding_symbol (applyTrade h q p ot) = holding_symbol h"
  by (cases ot) (simp_all add: applyTrade_def Let_def)

lemma wf_store_updatePortfolio:
  assumes wf: "wf_store st" and v: "validateInstrument st symbol"
  shows "wf_store (snd (updatePortfolio t st userId symbol q p ot))"
proof -
  let ?key = "portfolioKey userId symbol"
  let ?h0 = "case map_of (portfolio st) ?key of Some h \<Rightarrow> h | None \<Rightarrow> newHolding t userId symbol"
  let ?h1 = "(applyTrade ?h0 q p ot)\<lparr>holding_updatedAt := t\<rparr>"
  let ?st' = "snd (updatePortfolio t st userId symbol q p ot)"
  have p: "portfolio ?st' = AList.update ?key ?h1 (portfolio st)"
    and i: "instruments ?st' = instruments st"
    by (simp_all add: updatePortfolio_def Let_def)
  have h0: "?key = portfolioKey (holding_userId ?h0) (holding_symbol ?h0) \<and>
            validateInstrument st (holding_symbol ?h0)"
  proof (cases "map_of (portfolio st) ?key")
    case None
    with v show ?thesis by (simp add: newHolding_def)
  next
    case (Some h)
    then have "(?key, h) \<in> set (portfolio st)" by (rule map_of_SomeD)
    with wf Some show ?thesis by (auto simp: wf_store_def list_all_iff)
  qed
  then have h1: "?key = portfolioKey (holding_userId ?h1) (holding_symbol ?h1) \<and>
            validateInstrument st (holding_symbol ?h1)"
    by (simp add: applyTrade_ident)
  have "list_all (\<lambda>(k, h). k = portfolioKey (holding_userId h) (holding_symbol h) \<and>
                     validateInstrument st (holding_symbol h))
          (AList.update ?key ?h1 (portfolio st))"
    unfolding list_all_iff
  proof
    fix x assume "x \<in> set (AList.update ?key ?h1 (portfolio st))"
    with set_update_subset have "x = (?key, ?h1) \<or> x \<in> set (portfolio st)" by fastforce
    with h1 wf show "case x of (k, h) \<Rightarrow> k = portfolioKey (holding_userId h) (holding_symbol h) \<and>
                     validateInstrument st (holding_symbol h)"
      by (auto simp: wf_store_def list_all_iff)
  qed
  moreover from wf have "distinct (map fst (AList.update ?key ?h1 (portfolio st)))"
    by (simp add: wf_store_def distinct_update)
  moreover from wf have "distinct (map (toLowerCase \<circ> fst) (instruments st))"
    by (simp add: wf_store_def)
  ultimately show ?thesis
    unfolding wf_store_def [of ?st'] p i
    by (simp add: validateInstrument_keys i)
qed

lemma wf_store_updatePortfolioAfterTrade:
  assumes "wf_store st"
  shows "wf_store (snd (updatePortfolioAfterTrade t st userId symbol q p ot))"
proof (cases "fst (updatePortfolioAfterTrade t st userId symbol q p ot)")
  case (Inl err)
  then have "updatePortfolioAfterTrade t st userId symbol q p ot = (Inl err, st)"
    by (rule updatePortfolioAfterTrade_error)
  with assms show ?thesis by simp
next
  case (Inr h)
  then have "validateInstrument st symbol \<and>
             snd (updatePortfolioAfterTrade t st userId symbol q p ot)
               = snd (updatePortfolio t st userId symbol q p ot)"
    by (auto simp: updatePortfolioAfterTrade_def Let_def split: if_splits prod.splits)
  with assms show ?thesis by (simp add: wf_store_updatePortfolio)
qed


lemma updateOrderStatus_reads:
  "portfolio (snd (updateOrderStatus t st i s x y)) = portfolio st \<and>
   instruments (snd (updateOrderStatus t st i s x y)) = instruments st"
  by (simp add: updateOrderStatus_def Let_def split: option.splits)

lemma createTrade_reads:
  "portfolio (snd (createTrade t i r st a b c d q p)) = portfolio st \<and>
   instruments (snd (createTrade t i r st a b c d q p)) = instruments st"
  by (simp add: createTrade_def store_createTrade_def Let_def)

lemma createOrder_reads:
  "portfolio (snd (createOrder t i st od s0)) = portfolio st \<and>
   instruments (snd (createOrder t i st od s0)) = instruments st"
  by (simp add: createOrder_def Let_def)

lemma attemptOrderExecution_try_cases:
  "snd (attemptOrderExecution_try e st orderId) = st \<or>
   (\<exists>st2 u s q p ot. portfolio st2 = portfolio st \<and> instruments st2 = instruments st \<and>
      snd (attemptOrderExecution_try e st orderId)
        = snd (updatePortfolioAfterTrade (env_now e) st2 u s q p ot))"
proof (cases "getOrderById st orderId")
  case None
  then show ?thesis by (simp add: attemptOrderExecution_try_def)
next
  case (Some ord)
  show ?thesis
  proof (cases "status ord = PLACED")
    case False
    with Some show ?thesis by (simp add: attemptOrderExecution_try_def)
  next
    case True
    show ?thesis
    proof (cases "getCurrentPrice st (order_symbol ord)")
      case (Inl err)
      with Some True show ?thesis by (simp add: attemptOrderExecution_try_def)
    next
      case (Inr cp)
      show ?thesis
      proof (cases "orderStyle ord = MARKET \<or> canExecuteLimitOrder ord cp")
        case False
        with Some True Inr show ?thesis by (simp add: attemptOrderExecution_try_def)
      next
        case can: True
        then have can': "(if orderStyle ord = MARKET then True else canExecuteLimitOrder ord cp)"
          by auto
        show ?thesis
        proof (cases "calculateExecutionPrice (env_random e) ord cp")
          case None
          with Some True Inr can' show ?thesis by (simp add: attemptOrderExecution_try_def)
        next
          case p: (Some p)
          obtain executedOrder st1 where u: "updateOrderStatus (env_now e) st orderId EXECUTED
              (Some p) (Some (order_quantity ord)) = (executedOrder, st1)"
            by (cases "updateOrderStatus (env_now e) st orderId EXECUTED (Some p)
                         (Some (order_quantity ord))")
          obtain tr st2 where c: "createTrade (env_now e) (env_tradeId e) (env_tradeReference e)
              st1 (order_userId ord) (order_id ord) (order_symbol ord) (orderType ord)
              (order_quantity ord) p = (tr, st2)"
            by (cases "createTrade (env_now e) (env_tradeId e) (env_tradeReference e) st1
              (order_userId ord) (order_id ord) (order_symbol ord) (orderType ord)
              (order_quantity ord) p")
          from updateOrderStatus_reads [of "env_now e" st orderId EXECUTED "Some p"
                 "Some (order_quantity ord)"] u
          have s1: "portfolio st1 = portfolio st \<and> instruments st1 = instruments st" by simp
          from createTrade_reads [of "env_now e" "env_tradeId e" "env_tradeReference e" st1
                 "order_userId ord" "order_id ord" "order_symbol ord" "orderType ord"
                 "order_quantity ord" p] c
          have "portfolio st2 = portfolio st1 \<and> instruments st2 = instruments st1" by simp
          with s1 have s2: "portfolio st2 = portfolio st \<and> instruments st2 = instruments st"
            by simp
          have "snd (attemptOrderExecution_try e st orderId)
                  = snd (updatePortfolioAfterTrade (env_now e) st2 (order_userId ord)
                           (order_symbol ord) (order_quantity ord) p (orderType ord))"
            unfolding attemptOrderExecution_try_def
            by (simp add: Some True Inr can' p u c split: prod.splits sum.splits)
          with s2 show ?thesis by blast
        qed
      qed
    qed
  qed
qed

lemma wf_store_attemptOrderExecution:
  assumes "wf_store st"
  shows "wf_store (snd (attemptOrderExecution e st orderId))"
proof -
  have s: "snd (attemptOrderExecution e st orderId) = snd (attemptOrderExecution_try e st orderId)"
    by (simp add: attemptOrderExecution_def split: prod.splits sum.splits)
  from attemptOrderExecution_try_cases [of e st orderId] show ?thesis
  proof
    assume "snd (attemptOrderExecution_try e st orderId) = st"
    with assms s show ?thesis by simp
  next
    assume "\<exists>st2 u s q p ot. portfolio st2 = portfolio st \<and> instruments st2 = instruments st \<and>
      snd (attemptOrderExecution_try e st orderId)
        = snd (updatePortfolioAfterTrade (env_now e) st2 u s q p ot)"
    then obtain st2 u sy q p ot where a: "portfolio st2 = portfolio st"
      "instruments st2 = instruments st"
      "snd (attemptOrderExecution_try e st orderId)
        = snd (updatePortfolioAfterTrade (env_now e) st2 u sy q p ot)"
      by blast
    from assms a(1,2) have "wf_store st2" by (simp add: wf_store_reads [of st])
    then show ?thesis unfolding s a(3) by (rule wf_store_updatePortfolioAfterTrade)
  qed
qed

lemma wf_store_updatePrice:
  assumes "wf_store st"
  shows "wf_store (snd (updatePrice st symbol newPrice))"
proof (cases "map_of (instruments st) symbol")
  case None
  with assms show ?thesis by (simp add: updatePrice_def updateInstrumentPrice_def)
next
  case (Some inst)
  then have "symbol \<in> set (map fst (instruments st))"
    by (metis map_of_eq_None_iff option.distinct(1) list.set_map)
  then have "map fst (AList.update symbol (inst\<lparr>lastTradedPrice := newPrice\<rparr>) (instruments st))
               = map fst (instruments st)"
    by (simp add: update_keys)
  with Some assms show ?thesis
    by (simp add: updatePrice_def updateInstrumentPrice_def wf_store_reads [of st])
qed


lemma wf_store_placeOrder:
  assumes "wf_store st"
  shows "wf_store (snd (placeOrder e orderId st od))"
proof (cases "validateInstrument st (od_symbol od)")
  case False
  with assms show ?thesis by (simp add: placeOrder_def)
next
  case v: True
  show ?thesis
  proof (cases "getCurrentPrice st (od_symbol od)")
    case (Inl err)
    with v assms show ?thesis by (simp add: placeOrder_def)
  next
    case (Inr cp)
    show ?thesis
    proof (cases "od_orderStyle od = LIMIT \<and>
                  (case od_price od of None \<Rightarrow> True | Some p \<Rightarrow> p = 0 \<or> p \<le> 0)")
      case True
      with v Inr assms show ?thesis by (simp add: placeOrder_def)
    next
      case False
      obtain ord st1 where c: "createOrder (env_now e) orderId st od NEW = (ord, st1)"
        by (cases "createOrder (env_now e) orderId st od NEW")
      obtain placed st2 where u: "updateOrderStatus (env_now e) st1 (order_id ord) PLACED None None
          = (placed, st2)"
        by (cases "updateOrderStatus (env_now e) st1 (order_id ord) PLACED None None")
      obtain executed st3 where a: "attemptOrderExecution e st2 (order_id ord) = (executed, st3)"
        by (cases "attemptOrderExecution e st2 (order_id ord)")
      from createOrder_reads [of "env_now e" orderId st od NEW] c
      have "portfolio st1 = portfolio st \<and> instruments st1 = instruments st" by simp
      moreover from updateOrderStatus_reads [of "env_now e" st1 "order_id ord" PLACED None None] u
      have "portfolio st2 = portfolio st1 \<and> instruments st2 = instruments st1" by simp
      ultimately have "wf_store st2" using assms by (simp add: wf_store_reads [of st])
      from wf_store_attemptOrderExecution [OF this, of e "order_id ord"] a
      have w3: "wf_store st3" by simp
      from False have nf: "(od_orderStyle od = LIMIT \<and>
                  (case od_price od of None \<Rightarrow> True | Some p \<Rightarrow> p = 0 \<or> p \<le> 0)) = False"
        by simp
      have "snd (placeOrder e orderId st od) = st3"
        unfolding placeOrder_def
        apply (simp only: v Inr nf c u a if_True if_False not_True_eq_False sum.case prod.case)
        apply (cases "getOrderById st3 (order_id ord)")
        apply (simp_all only: option.case snd_conv)
        done
      with w3 show ?thesis by simp
    qed
  qed
qed

section \<open>Execution attempts\<close>

definition exampleEnv :: env where
  "exampleEnv =
     \<lparr>env_now = 1, env_random = 1 / 2, env_tradeId = ''t1'', env_tradeReference = ''TXN1''\<rparr>"

definition sellData :: orderData where
  "sellData =
     \<lparr>od_userId = ''user_001'', od_symbol = ''RELIANCE'', od_orderType = SELL,
      od_orderStyle = MARKET, od_quantity = 10, od_price = None\<rparr>"

text \<open>
  The store as \<open>placeOrder\<close> leaves it just before the execution attempt: a fresh store
  with one MARKET SELL order of 10 RELIANCE in status PLACED, and no holdings.
\<close>

definition placedSell :: store where
  "placedSell =
     snd (updateOrderStatus 0 (snd (createOrder 0 ''o1'' MemoryStore sellData NEW))
            ''o1'' PLACED None None)"

definition cancelledSell :: store where
  "cancelledSell = snd (updateOrderStatus 2 placedSell ''o1'' CANCELLED None None)"

text \<open>
  Claim C8. An execution attempt on an order that is absent, or whose status is not PLACED
  (so also one that is EXECUTED or CANCELLED), returns \<open>null\<close> and leaves the whole
  store (instruments, orders, trades, holdings) as it was; a second attempt, with any
  clock and random draw, does the same.
\<close>

theorem attemptOrderExecution_noop:
  assumes "case getOrderById st orderId of None \<Rightarrow> True | Some ord \<Rightarrow> status ord \<noteq> PLACED"
  shows "attemptOrderExecution e st orderId = (None, st) \<and>
         attemptOrderExecution e' (snd (attemptOrderExecution e st orderId)) orderId = (None, st)"
proof -
  have "attemptOrderExecution_try x st orderId = (Inr None, st)" for x
    using assms by (simp add: attemptOrderExecution_try_def split: option.splits)
  then have "attemptOrderExecution x st orderId = (None, st)" for x
    by (simp add: attemptOrderExecution_def)
  then show ?thesis by simp
qed

theorem attemptOrderExecution_noop_witness:
  "map_option status (getOrderById cancelledSell ''o1'') = Some CANCELLED \<and>
   attemptOrderExecution exampleEnv cancelledSell ''o1'' = (None, cancelledSell) \<and>
   getOrderById MemoryStore ''o1'' = None \<and>
   attemptOrderExecution exampleEnv MemoryStore ''o1'' = (None, MemoryStore)"
proof -
  have c: "map_option status (getOrderById cancelledSell ''o1'') = Some CANCELLED"
    by code_simp
  then have "case getOrderById cancelledSell ''o1'' of None \<Rightarrow> True
             | Some ord \<Rightarrow> status ord \<noteq> PLACED"
    by (auto split: option.splits)
  from attemptOrderExecution_noop [OF this, of exampleEnv exampleEnv]
  have 1: "attemptOrderExecution exampleEnv cancelledSell ''o1'' = (None, cancelledSell)"
    by simp
  have n: "getOrderById MemoryStore ''o1'' = None"
    by code_simp
  then have "case getOrderById MemoryStore ''o1'' of None \<Rightarrow> True
             | Some ord \<Rightarrow> status ord \<noteq> PLACED"
    by simp
  from attemptOrderExecution_noop [OF this, of exampleEnv exampleEnv]
  have 2: "attemptOrderExecution exampleEnv MemoryStore ''o1'' = (None, MemoryStore)"
    by simp
  from c 1 n 2 show ?thesis by simp
qed

text \<open>
  When the portfolio update of an execution attempt on a PLACED order fails, the attempt
  has already written the status EXECUTED and recorded the trade, and nothing undoes
  either: it returns \<open>null\<close> over a store in which the order is EXECUTED, its trade
  is kept, and the holdings are as they were. The portfolio update reads only the
  instruments and the holdings, which the attempt has not changed before it, so its
  failure is stated on the store the attempt starts from.
\<close>

lemma failed_portfolio_update_leaves_order_executed:
  assumes o: "getOrderById st orderId = Some ord" and pl: "status ord = PLACED"
    and cp: "getCurrentPrice st (order_symbol ord) = Inr cp"
    and can: "orderStyle ord = MARKET \<or> canExecuteLimitOrder ord cp"
    and p: "calculateExecutionPrice (env_random e) ord cp = Some p"
    and f: "fst (updatePortfolioAfterTrade (env_now e) st (order_userId ord) (order_symbol ord)
                   (order_quantity ord) p (orderType ord)) = Inl err"
  shows "fst (attemptOrderExecution_try e st orderId) = Inl err \<and>
         fst (attemptOrderExecution e st orderId) = None \<and>
         map_option status (getOrderById (snd (attemptOrderExecution e st orderId)) orderId)
           = Some EXECUTED \<and>
         map_of (trades (snd (attemptOrderExecution e st orderId))) (env_tradeId e) \<noteq> None \<and>
         portfolio (snd (attemptOrderExecution e st orderId)) = portfolio st \<and>
         instruments (snd (attemptOrderExecution e st orderId)) = instruments st"
proof -
  obtain executedOrder st1 where u: "updateOrderStatus (env_now e) st orderId EXECUTED
      (Some p) (Some (order_quantity ord)) = (executedOrder, st1)"
    by (cases "updateOrderStatus (env_now e) st orderId EXECUTED (Some p) (Some (order_quantity ord))")
  obtain tr st2 where c: "createTrade (env_now e) (env_tradeId e) (env_tradeReference e) st1
      (order_userId ord) (order_id ord) (order_symbol ord) (orderType ord) (order_quantity ord) p
      = (tr, st2)"
    by (cases "createTrade (env_now e) (env_tradeId e) (env_tradeReference e) st1
      (order_userId ord) (order_id ord) (order_symbol ord) (orderType ord) (order_quantity ord) p")
  from u have s1: "instruments st1 = instruments st" "portfolio st1 = portfolio st"
    by (auto simp: updateOrderStatus_def Let_def split: option.splits)
  from u o have e1: "map_option status (map_of (orders st1) orderId) = Some EXECUTED"
    by (auto simp: updateOrderStatus_def getOrderById_def Let_def AList.update_conv')
  from c have "instruments st2 = instruments st1" "portfolio st2 = portfolio st1"
    and o2: "orders st2 = orders st1"
    and t2: "map_of (trades st2) (env_tradeId e) \<noteq> None"
    by (auto simp: createTrade_def store_createTrade_def Let_def AList.update_conv')
  with s1 have s2: "instruments st2 = instruments st" "portfolio st2 = portfolio st" by simp_all
  from updatePortfolioAfterTrade_reads [OF s2 f]
  have "fst (updatePortfolioAfterTrade (env_now e) st2 (order_userId ord) (order_symbol ord)
                   (order_quantity ord) p (orderType ord)) = Inl err"
    by simp
  then have upd: "updatePortfolioAfterTrade (env_now e) st2 (order_userId ord) (order_symbol ord)
                   (order_quantity ord) p (orderType ord) = (Inl err, st2)"
    by (rule updatePortfolioAfterTrade_error)
  from can have can': "(if orderStyle ord = MARKET then True else canExecuteLimitOrder ord cp)"
    by auto
  have t: "attemptOrderExecution_try e st orderId = (Inl err, st2)"
    unfolding attemptOrderExecution_try_def
    by (simp add: o pl cp can' p u c upd Let_def)
  then have a: "attemptOrderExecution e st orderId = (None, st2)"
    by (simp add: attemptOrderExecution_def)
  from e1 o2 have "map_option status (getOrderById st2 orderId) = Some EXECUTED"
    by (simp add: getOrderById_def)
  with t a s2 t2 show ?thesis by simp
qed

text \<open>
  Claim C1. The claim asks that an execution attempt whose portfolio update fails leave
  the order PLACED, leave no partial state and surface the error. The code does not: on
  the fresh store, the attempt on a PLACED MARKET SELL order of 10 RELIANCE, with no
  holdings, fails in the portfolio update with the insufficient-quantity error, returns
  \<open>null\<close>, and leaves the order EXECUTED and its trade recorded while no holding was
  updated; \<open>placeOrder\<close> hands that EXECUTED order back to its caller, and a second attempt
  does nothing, the order being no longer PLACED.
\<close>

theorem failed_execution_leaves_order_executed:
  "map_option status (getOrderById placedSell ''o1'') = Some PLACED \<and>
   fst (attemptOrderExecution_try exampleEnv placedSell ''o1'')
     = Inl (AppError (InsufficientQuantity 0 10) BAD_REQUEST) \<and>
   fst (attemptOrderExecution exampleEnv placedSell ''o1'') = None \<and>
   map_option status
     (getOrderById (snd (attemptOrderExecution exampleEnv placedSell ''o1'')) ''o1'')
     = Some EXECUTED \<and>
   map fst (trades (snd (attemptOrderExecution exampleEnv placedSell ''o1''))) = [''t1''] \<and>
   portfolio (snd (attemptOrderExecution exampleEnv placedSell ''o1'')) = [] \<and>
   map_sum id status (fst (placeOrder exampleEnv ''o1'' MemoryStore sellData)) = Inr EXECUTED \<and>
   attemptOrderExecution exampleEnv (snd (attemptOrderExecution exampleEnv placedSell ''o1'')) ''o1''
     = (None, snd (attemptOrderExecution exampleEnv placedSell ''o1''))"
  by code_simp

section \<open>HTTP layer\<close>

text \<open>
  A JSON value of a request body. \<open>JOther\<close> stands for arrays and objects, which no
  rule used here accepts.
\<close>

datatype jsval = JUndefined | JNull | JBool bool | JNumber number | JString string | JOther

text \<open>
  The validation schemas are written with joi, a library the repository depends on. Its
  rules are written out here as its documentation gives them, for the rules the order
  schema uses, each returning the error codes it raises (none when the value passes).
\<close>

datatype joi_error =
    AnyRequired | AnyOnly | StringBase | StringEmpty | StringMin | StringMax
  | NumberBase | NumberUnsafe | NumberInteger | NumberMin | NumberMax | NumberPositive

text \<open>A response: the status and what the JSON body says.\<close>

datatype response_body =
    ValidationFailed "(string \<times> joi_error) list"
  | AuthenticationRequired
  | InvalidToken
  | ValidPriceRequired
  | PriceUpdated string number
  | OrderCreated order
  | ErrorBody error_message

record response =
  res_status :: nat
  res_body :: response_body

text \<open>
  \<open>errorHandler\<close> on an \<open>AppError\<close>: the status is \<open>err.statusCode || 500\<close>, the body
  carries the message.
\<close>

definition errorHandler :: "app_error \<Rightarrow> response" where
  "errorHandler err =
     (case err of AppError msg code \<Rightarrow>
        \<lparr>res_status = (if code = 0 then 500 else code), res_body = ErrorBody msg\<rparr>)"

subsection \<open>\<open>controllers/instrumentController.js\<close>\<close>

text \<open>
  \<open>updatePrice\<close> reads \<open>price\<close> from the body with no schema in front of it, so it is
  any JSON value (\<open>JUndefined\<close> when the body has none). \<open>!price\<close> is its falsiness.
  \<open>price <= 0\<close> compares the number JavaScript converts the value to, false when that
  is NaN (\<open>None\<close>); the conversion of strings, arrays and objects is the parameter
  \<open>toNumber\<close>.
\<close>

definition js_truthy :: "jsval \<Rightarrow> bool" where
  "js_truthy v =
     (case v of
        JUndefined \<Rightarrow> False
      | JNull \<Rightarrow> False
      | JBool b \<Rightarrow> b
      | JNumber n \<Rightarrow> n \<noteq> 0
      | JString s \<Rightarrow> s \<noteq> []
      | JOther \<Rightarrow> True)"

definition js_toNumber :: "(jsval \<Rightarrow> number option) \<Rightarrow> jsval \<Rightarrow> number option" where
  "js_toNumber toNumber v =
     (case v of
        JUndefined \<Rightarrow> None
      | JNull \<Rightarrow> Some 0
      | JBool b \<Rightarrow> Some (if b then 1 else 0)
      | JNumber n \<Rightarrow> Some n
      | JString s \<Rightarrow> toNumber (JString s)
      | JOther \<Rightarrow> toNumber JOther)"

definition js_le_zero :: "(jsval \<Rightarrow> number option) \<Rightarrow> jsval \<Rightarrow> bool" where
  "js_le_zero toNumber v = (case js_toNumber toNumber v of None \<Rightarrow> False | Some n \<Rightarrow> n \<le> 0)"

text \<open>
  What the controller does with a request: it sends a response (none when the service
  returns a falsy value) over a store, or, when a value that is not a number passes
  the guard and the symbol is listed, the service stores that value as the price, for
  which the store of the model, whose prices are numbers, has no place.
\<close>

datatype controller_result =
    Sent "response option" store
  | StoresNonNumber string jsval

definition controller_updatePrice ::
  "(jsval \<Rightarrow> number option) \<Rightarrow> store \<Rightarrow> string \<Rightarrow> jsval \<Rightarrow> controller_result" where
  "controller_updatePrice toNumber st symbol price =
     (if \<not> js_truthy price \<or> js_le_zero toNumber price then
        Sent (Some \<lparr>res_status = BAD_REQUEST, res_body = ValidPriceRequired\<rparr>) st
      else
        (case price of
           JNumber p \<Rightarrow>
             (case updatePrice st (toUpperCase symbol) p of
                (Inl err, st') \<Rightarrow> Sent (Some (errorHandler err)) st'
              | (Inr updated, st') \<Rightarrow>
                  if updated then
                    Sent (Some \<lparr>res_status = 200,
                                res_body = PriceUpdated (toUpperCase symbol) p\<rparr>) st'
                  else Sent None st')
         | v \<Rightarrow>
             if map_of (instruments st) (toUpperCase symbol) = None then
               Sent (Some (errorHandler
                             (AppError (FailedToUpdatePriceFor (toUpperCase symbol)) NOT_FOUND))) st
             else StoresNonNumber (toUpperCase symbol) v))"

subsection \<open>\<open>middleware/validation.js\<close>\<close>

text \<open>
  The body of a request to place an order, as \<open>express.json()\<close> hands it over: a JSON
  object, of which the schema reads five keys (a key the body lacks is \<open>JUndefined\<close>;
  unknown keys are stripped).
\<close>

record createOrderBody =
  b_symbol :: jsval
  b_orderType :: jsval
  b_orderStyle :: jsval
  b_quantity :: jsval
  b_price :: jsval

text \<open>
  \<open>Joi.string().required().min(lo).max(hi)\<close>: a string is not converted from another
  type, and the empty string is refused.
\<close>

definition string_rule :: "nat \<Rightarrow> nat \<Rightarrow> jsval \<Rightarrow> joi_error list" where
  "string_rule lo hi v =
     (case v of
        JUndefined \<Rightarrow> [AnyRequired]
      | JString s \<Rightarrow>
          if s = [] then [StringEmpty]
          else (if length s < lo then [StringMin] else []) @
               (if length s > hi then [StringMax] else [])
      | _ \<Rightarrow> [StringBase])"

text \<open>\<open>Joi.string().valid(...).required()\<close>: only the listed strings pass.\<close>

definition valid_rule :: "string list \<Rightarrow> jsval \<Rightarrow> joi_error list" where
  "valid_rule allowed v =
     (case v of
        JUndefined \<Rightarrow> [AnyRequired]
      | JString s \<Rightarrow>
          if s \<in> set allowed then []
          else if s = [] then [AnyOnly, StringEmpty]
          else [AnyOnly]
      | _ \<Rightarrow> [AnyOnly, StringBase])"

text \<open>
  \<open>Joi.number()\<close>: a JSON number, or a string that joi converts to a number. The
  conversion of strings is the parameter \<open>coerce\<close> (\<open>None\<close> for a string joi does not
  take for a number). A number outside the safe integers is refused, and so is every
  other type; a failure of this base check ends the validation of the key.
\<close>

definition number_value :: "(string \<Rightarrow> number option) \<Rightarrow> jsval \<Rightarrow> number option" where
  "number_value coerce v =
     (case v of JNumber n \<Rightarrow> Some n | JString s \<Rightarrow> coerce s | _ \<Rightarrow> None)"

definition MAX_SAFE_INTEGER :: number where
  "MAX_SAFE_INTEGER = 2 ^ 53 - 1"

definition number_base :: "(string \<Rightarrow> number option) \<Rightarrow> bool \<Rightarrow> jsval \<Rightarrow> joi_error list + number option" where
  "number_base coerce required v =
     (if v = JUndefined then (if required then Inl [AnyRequired] else Inr None)
      else
        (case number_value coerce v of
           None \<Rightarrow> Inl [NumberBase]
         | Some n \<Rightarrow>
             if n > MAX_SAFE_INTEGER \<or> n < - MAX_SAFE_INTEGER then Inl [NumberUnsafe]
             else Inr (Some n)))"

text \<open>\<open>Joi.number().integer().min(1).max(10000).required()\<close>.\<close>

definition quantity_rule :: "(string \<Rightarrow> number option) \<Rightarrow> jsval \<Rightarrow> joi_error list" where
  "quantity_rule coerce v =
     (case number_base coerce True v of
        Inl errs \<Rightarrow> errs
      | Inr None \<Rightarrow> []
      | Inr (Some n) \<Rightarrow>
          (if of_int \<lfloor>n\<rfloor> \<noteq> n then [NumberInteger] else []) @
          (if n < 1 then [NumberMin] else []) @
          (if n > 10000 then [NumberMax] else []))"

text \<open>\<open>Joi.number().positive()\<close>, \<open>.required()\<close> or \<open>.optional()\<close>.\<close>

definition positive_rule :: "(string \<Rightarrow> number option) \<Rightarrow> bool \<Rightarrow> jsval \<Rightarrow> joi_error list" where
  "positive_rule coerce required v =
     (case number_base coerce required v of
        Inl errs \<Rightarrow> errs
      | Inr None \<Rightarrow> []
      | Inr (Some n) \<Rightarrow> if n > 0 then [] else [NumberPositive])"

text \<open>
  \<open>Joi.when('orderStyle', {is: 'LIMIT', then: ..., otherwise: ...})\<close>: the price is
  required exactly when the body's orderStyle is the string LIMIT.
\<close>

definition price_rule :: "(string \<Rightarrow> number option) \<Rightarrow> jsval \<Rightarrow> jsval \<Rightarrow> joi_error list" where
  "price_rule coerce style v =
     (if style = JString ''LIMIT'' then positive_rule coerce True v
      else positive_rule coerce False v)"

text \<open>
  \<open>schemas.createOrder\<close>, validated with \<open>abortEarly: false\<close>: the violations of all
  keys, each with the key it belongs to.
\<close>

definition createOrder_details :: "(string \<Rightarrow> number option) \<Rightarrow> createOrderBody \<Rightarrow> (string \<times> joi_error) list" where
  "createOrder_details coerce body =
     map (Pair ''symbol'') (string_rule 1 20 (b_symbol body)) @
     map (Pair ''orderType'') (valid_rule [''BUY'', ''SELL''] (b_orderType body)) @
     map (Pair ''orderStyle'') (valid_rule [''MARKET'', ''LIMIT''] (b_orderStyle body)) @
     map (Pair ''quantity'') (quantity_rule coerce (b_quantity body)) @
     map (Pair ''price'') (price_rule coerce (b_orderStyle body) (b_price body))"

text \<open>
  The validated body with the user id the controller adds: what \<open>placeOrder\<close>
  receives. It is built only from a body that has passed the schema, where orderType
  and orderStyle are among the listed strings and quantity and price are numbers.
\<close>

definition createOrder_value :: "(string \<Rightarrow> number option) \<Rightarrow> string \<Rightarrow> createOrderBody \<Rightarrow> orderData" where
  "createOrder_value coerce userId body =
     \<lparr>od_userId = userId,
      od_symbol = (case b_symbol body of JString s \<Rightarrow> s | _ \<Rightarrow> []),
      od_orderType = (if b_orderType body = JString ''BUY'' then BUY else SELL),
      od_orderStyle = (if b_orderStyle body = JString ''MARKET'' then MARKET else LIMIT),
      od_quantity = (case number_value coerce (b_quantity body) of Some n \<Rightarrow> n | None \<Rightarrow> 0),
      od_price = (if b_price body = JUndefined then None
                  else number_value coerce (b_price body))\<rparr>"

text \<open>
  The middleware \<open>validate(schemas.createOrder, 'body')\<close>: on a violation it sends the
  400 response and does not call \<open>next()\<close>; \<open>None\<close> means that the request goes on.
\<close>

definition validateCreateOrder :: "(string \<Rightarrow> number option) \<Rightarrow> createOrderBody \<Rightarrow> response option" where
  "validateCreateOrder coerce body =
     (let details = createOrder_details coerce body
      in if details \<noteq> [] then
           Some \<lparr>res_status = 400, res_body = ValidationFailed details\<rparr>
         else None)"

text \<open>
  \<open>authenticateUser\<close>: the Authorization header must be the mock token; the user is then
  \<open>config.mockUser\<close>, whose id is \<open>user_001\<close>.
\<close>

definition authenticateUser :: "string option \<Rightarrow> response + string" where
  "authenticateUser authHeader =
     (case authHeader of
        None \<Rightarrow> Inl \<lparr>res_status = 401, res_body = AuthenticationRequired\<rparr>
      | Some h \<Rightarrow>
          if h = [] then Inl \<lparr>res_status = 401, res_body = AuthenticationRequired\<rparr>
          else if h \<noteq> ''Bearer mock-token'' then Inl \<lparr>res_status = 401, res_body = InvalidToken\<rparr>
          else Inr ''user_001'')"

text \<open>
  \<open>orderController.placeOrder\<close>, and the route \<open>POST /api/v1/orders\<close>: authentication,
  then validation, then the controller. An error the service throws goes to
  \<open>errorHandler\<close>.
\<close>

definition controller_placeOrder :: "env \<Rightarrow> string \<Rightarrow> store \<Rightarrow> orderData \<Rightarrow> response \<times> store" where
  "controller_placeOrder e orderId st od =
     (case placeOrder e orderId st od of
        (Inl err, st') \<Rightarrow> (errorHandler err, st')
      | (Inr ord, st') \<Rightarrow> (\<lparr>res_status = 201, res_body = OrderCreated ord\<rparr>, st'))"

definition post_orders ::
  "(string \<Rightarrow> number option) \<Rightarrow> env \<Rightarrow> string \<Rightarrow> store \<Rightarrow> string option \<Rightarrow> createOrderBody
     \<Rightarrow> response \<times> store" where
  "post_orders coerce e orderId st authHeader body =
     (case authenticateUser authHeader of
        Inl res \<Rightarrow> (res, st)
      | Inr userId \<Rightarrow>
          (case validateCreateOrder coerce body of
             Some res \<Rightarrow> (res, st)
           | None \<Rightarrow> controller_placeOrder e orderId st (createOrder_value coerce userId body)))"

section \<open>Price updates\<close>




text \<open>A conversion in which no string, array or object is a number.\<close>

definition notANumber :: "jsval \<Rightarrow> number option" where
  "notANumber v = None"



text \<open>
  The guard of the controller is not a check of the type: a string that is no number
  passes it, and for a listed symbol goes on to the service to be stored.
\<close>

lemma controller_updatePrice_passes_string:
  "controller_updatePrice notANumber MemoryStore ''tcs'' (JString ''abc'')
     = StoresNonNumber ''TCS'' (JString ''abc'')"
  by code_simp

section \<open>Validation of order requests\<close>

text \<open>
  The conditions of a valid request, on the value joi reads: the quantity is an integer
  from 1 to 10000, the price is a positive number.
\<close>

definition quantity_ok :: "(string \<Rightarrow> number option) \<Rightarrow> jsval \<Rightarrow> bool" where
  "quantity_ok coerce v =
     (case number_value coerce v of
        None \<Rightarrow> False
      | Some n \<Rightarrow> of_int \<lfloor>n\<rfloor> = n \<and> 1 \<le> n \<and> n \<le> 10000)"

definition price_ok :: "(string \<Rightarrow> number option) \<Rightarrow> jsval \<Rightarrow> bool" where
  "price_ok coerce v = (case number_value coerce v of None \<Rightarrow> False | Some p \<Rightarrow> 0 < p)"

definition exampleBody :: "jsval \<Rightarrow> jsval \<Rightarrow> jsval \<Rightarrow> jsval \<Rightarrow> createOrderBody" where
  "exampleBody t s q p =
     \<lparr>b_symbol = JString ''TCS'', b_orderType = t, b_orderStyle = s, b_quantity = q, b_price = p\<rparr>"

definition noCoercion :: "string \<Rightarrow> number option" where
  "noCoercion s = None"

lemma quantity_rule_rejects:
  assumes "\<not> quantity_ok coerce v"
  shows "quantity_rule coerce v \<noteq> []"
  using assms
  by (cases v)
     (auto simp: quantity_ok_def quantity_rule_def number_base_def number_value_def
        split: option.splits if_splits)

lemma positive_rule_rejects:
  assumes "\<not> price_ok coerce v"
  shows "positive_rule coerce True v \<noteq> []"
  using assms
  by (cases v)
     (auto simp: price_ok_def positive_rule_def number_base_def number_value_def
        split: option.splits if_splits)

lemma valid_rule_rejects:
  assumes "v \<notin> JString ` set allowed"
  shows "valid_rule allowed v \<noteq> []"
  using assms by (cases v) (auto simp: valid_rule_def)

lemma details_nonempty:
  assumes "\<not> quantity_ok coerce (b_quantity body) \<or>
           b_orderType body \<notin> {JString ''BUY'', JString ''SELL''} \<or>
           b_orderStyle body \<notin> {JString ''MARKET'', JString ''LIMIT''} \<or>
           (b_orderStyle body = JString ''LIMIT'' \<and> \<not> price_ok coerce (b_price body))"
  shows "createOrder_details coerce body \<noteq> []"
proof -
  from assms consider
      (q) "\<not> quantity_ok coerce (b_quantity body)"
    | (t) "b_orderType body \<notin> JString ` set [''BUY'', ''SELL'']"
    | (s) "b_orderStyle body \<notin> JString ` set [''MARKET'', ''LIMIT'']"
    | (p) "b_orderStyle body = JString ''LIMIT''" "\<not> price_ok coerce (b_price body)"
    by auto
  then show ?thesis
  proof cases
    case q
    from quantity_rule_rejects [OF this] show ?thesis by (simp add: createOrder_details_def)
  next
    case t
    from valid_rule_rejects [OF this] show ?thesis by (simp add: createOrder_details_def)
  next
    case s
    from valid_rule_rejects [OF this] show ?thesis by (simp add: createOrder_details_def)
  next
    case p
    from positive_rule_rejects [OF p(2)] p(1) show ?thesis
      by (simp add: createOrder_details_def price_rule_def)
  qed
qed

text \<open>
  Claim C10. A request to place an order whose quantity is not an integer from 1 to 10000,
  whose orderType is not BUY or SELL, whose orderStyle is not MARKET or LIMIT, or that is
  a LIMIT request without a positive price, is answered by the validation middleware
  with status 400 and the list of violations; on the route, for an authenticated
  request, that is the response, and the store is untouched, the order service not
  having been called. A quantity or price given as a string counts as the number joi
  converts it to.
\<close>

theorem invalid_order_request_rejected:
  assumes "\<not> quantity_ok coerce (b_quantity body) \<or>
           b_orderType body \<notin> {JString ''BUY'', JString ''SELL''} \<or>
           b_orderStyle body \<notin> {JString ''MARKET'', JString ''LIMIT''} \<or>
           (b_orderStyle body = JString ''LIMIT'' \<and> \<not> price_ok coerce (b_price body))"
  shows "\<exists>details. details \<noteq> [] \<and>
           validateCreateOrder coerce body
             = Some \<lparr>res_status = 400, res_body = ValidationFailed details\<rparr> \<and>
           post_orders coerce e orderId st (Some ''Bearer mock-token'') body
             = (\<lparr>res_status = 400, res_body = ValidationFailed details\<rparr>, st)"
proof -
  from details_nonempty [OF assms]
  have d: "createOrder_details coerce body \<noteq> []" .
  then have v: "validateCreateOrder coerce body
      = Some \<lparr>res_status = 400, res_body = ValidationFailed (createOrder_details coerce body)\<rparr>"
    by (simp add: validateCreateOrder_def Let_def)
  have a: "authenticateUser (Some ''Bearer mock-token'') = Inr ''user_001''"
    by (simp add: authenticateUser_def)
  have "post_orders coerce e orderId st (Some ''Bearer mock-token'') body
      = (\<lparr>res_status = 400, res_body = ValidationFailed (createOrder_details coerce body)\<rparr>, st)"
    by (simp add: post_orders_def a v)
  with d v show ?thesis by blast
qed

text \<open>The bound is inclusive: a quantity of 10000 passes the middleware.\<close>

lemma validateCreateOrder_accepts_10000:
  "validateCreateOrder noCoercion
     (exampleBody (JString ''BUY'') (JString ''MARKET'') (JNumber 10000) JUndefined) = None"
  by code_simp

theorem invalid_order_request_rejected_witness:
  "\<not> quantity_ok noCoercion (JNumber 10001) \<and>
   validateCreateOrder noCoercion
       (exampleBody (JString ''BUY'') (JString ''MARKET'') (JNumber 10001) JUndefined)
     = Some \<lparr>res_status = 400, res_body = ValidationFailed [(''quantity'', NumberMax)]\<rparr> \<and>
   post_orders noCoercion exampleEnv ''o1'' MemoryStore (Some ''Bearer mock-token'')
       (exampleBody (JString ''BUY'') (JString ''MARKET'') (JNumber 10001) JUndefined)
     = (\<lparr>res_status = 400, res_body = ValidationFailed [(''quantity'', NumberMax)]\<rparr>,
        MemoryStore)"
proof -
  let ?body = "exampleBody (JString ''BUY'') (JString ''MARKET'') (JNumber 10001) JUndefined"
  have q: "\<not> quantity_ok noCoercion (JNumber 10001)" by code_simp
  have b: "b_quantity ?body = JNumber 10001" by (simp add: exampleBody_def)
  from q b have h: "\<not> quantity_ok noCoercion (b_quantity ?body) \<or>
           b_orderType ?body \<notin> {JString ''BUY'', JString ''SELL''} \<or>
           b_orderStyle ?body \<notin> {JString ''MARKET'', JString ''LIMIT''} \<or>
           (b_orderStyle ?body = JString ''LIMIT'' \<and> \<not> price_ok noCoercion (b_price ?body))"
    by simp
  from invalid_order_request_rejected [OF h, of exampleEnv "''o1''" MemoryStore]
  obtain details where
    v: "validateCreateOrder noCoercion ?body
          = Some \<lparr>res_status = 400, res_body = ValidationFailed details\<rparr>"
    and r: "post_orders noCoercion exampleEnv ''o1'' MemoryStore (Some ''Bearer mock-token'') ?body
          = (\<lparr>res_status = 400, res_body = ValidationFailed details\<rparr>, MemoryStore)"
    by blast
  have c: "validateCreateOrder noCoercion ?body
          = Some \<lparr>res_status = 400, res_body = ValidationFailed [(''quantity'', NumberMax)]\<rparr>"
    by code_simp
  from v c have "details = [(''quantity'', NumberMax)]" by simp
  with q c r show ?thesis by simp
qed

end
